theory Spec2Isabelle
  imports Main "HOL-Library.Word"
begin

unbundle bit_operations_syntax

section \<open>The terminal bridge of the Parlance REPL (src/ffi/parlance\_repl.c)\<close>

text \<open>
  The file \<^verbatim>\<open>parlance_repl.c\<close> holds two process-wide variables, the saved
  attributes \<^verbatim>\<open>original_termios\<close> and the flag \<^verbatim>\<open>raw_mode_enabled\<close>, and four
  exported functions that call \<^verbatim>\<open>tcgetattr\<close>, \<^verbatim>\<open>tcsetattr\<close>, \<^verbatim>\<open>ioctl\<close> and
  \<^verbatim>\<open>read\<close>. The embedding passes the two variables and the terminal's live
  attributes around as one record, and takes the outcome of every system call
  as an argument, so that each theorem holds for whatever the system answers.
\<close>

subsection \<open>Data of termios.h and sys/ioctl.h\<close>

type_synonym tcflag_t = "32 word"
type_synonym cc_t = "8 word"
type_synonym speed_t = "32 word"

text \<open>
  \<^verbatim>\<open>struct termios\<close>, in the layout of Linux: the four flag words, the control
  characters \<^verbatim>\<open>c_cc[NCCS]\<close> as a list, and the members \<^verbatim>\<open>c_line\<close>, \<^verbatim>\<open>c_ispeed\<close>
  and \<^verbatim>\<open>c_ospeed\<close> that a struct copy carries along.
\<close>

record termios =
  c_iflag :: tcflag_t
  c_oflag :: tcflag_t
  c_cflag :: tcflag_t
  c_lflag :: tcflag_t
  c_line :: cc_t
  c_cc :: "cc_t list"
  c_ispeed :: speed_t
  c_ospeed :: speed_t

text \<open>
  The flag masks and the indices into \<^verbatim>\<open>c_cc\<close> are macros of the system header,
  which is not part of the repository and differs between platforms. They are
  a parameter of the model: every function that uses one takes the header.
\<close>

record termios_h =
  BRKINT :: tcflag_t
  ICRNL :: tcflag_t
  INPCK :: tcflag_t
  ISTRIP :: tcflag_t
  IXON :: tcflag_t
  OPOST :: tcflag_t
  CS8 :: tcflag_t
  ECHO :: tcflag_t
  ICANON :: tcflag_t
  IEXTEN :: tcflag_t
  ISIG :: tcflag_t
  VMIN :: nat
  VTIME :: nat
  NCCS :: nat

text \<open>The values of Linux (asm-generic/termbits.h), for concrete instances.\<close>

definition linux_termios_h :: termios_h where
  "linux_termios_h =
     \<lparr>BRKINT = 0x2, ICRNL = 0x100, INPCK = 0x10, ISTRIP = 0x20, IXON = 0x400,
      OPOST = 0x1, CS8 = 0x30, ECHO = 0x8, ICANON = 0x2, IEXTEN = 0x8000,
      ISIG = 0x1, VMIN = 6, VTIME = 5, NCCS = 32\<rparr>"

record winsize =
  ws_row :: "16 word"
  ws_col :: "16 word"
  ws_xpixel :: "16 word"
  ws_ypixel :: "16 word"

subsection \<open>The result convention of the host runtime\<close>

datatype io_error = lean_mk_io_user_error string

datatype 'a lean_io_result =
    lean_io_result_mk_ok 'a
  | lean_io_result_mk_error io_error

subsection \<open>State\<close>

text \<open>
  \<open>original_termios\<close> and \<open>raw_mode_enabled\<close> are the two static variables of
  the file (the flag is a C \<^verbatim>\<open>int\<close>, tested against zero); \<open>tty\<close> is the live
  attribute set of the terminal on standard input, which only the operating
  system holds.
\<close>

record world =
  original_termios :: termios
  raw_mode_enabled :: int
  tty :: termios

text \<open>C zero-initialises both static variables.\<close>

definition zero_termios :: "termios_h \<Rightarrow> termios" where
  "zero_termios h =
     \<lparr>c_iflag = 0, c_oflag = 0, c_cflag = 0, c_lflag = 0, c_line = 0,
      c_cc = replicate (NCCS h) 0, c_ispeed = 0, c_ospeed = 0\<rparr>"

definition initial_world :: "termios_h \<Rightarrow> termios \<Rightarrow> world" where
  "initial_world h t0 =
     \<lparr>original_termios = zero_termios h, raw_mode_enabled = 0, tty = t0\<rparr>"

subsection \<open>The system calls\<close>

text \<open>
  Whether a call succeeds is the system's choice, given as an argument.
  \<open>tcgetattr\<close> returns 0 and stores the live attributes in the buffer, or
  returns -1 and leaves the buffer as it was. \<open>tcsetattr\<close> returns 0 and
  installs the attributes it is given, or returns -1 and leaves the terminal
  as it was. Each yields the return value and the updated object. The pending
  input that \<^verbatim>\<open>TCSAFLUSH\<close> discards is not part of the state.
\<close>

datatype outcome = Success | Failure

definition tcgetattr :: "outcome \<Rightarrow> termios \<Rightarrow> termios \<Rightarrow> int \<times> termios" where
  "tcgetattr oc live buf = (case oc of Success \<Rightarrow> (0, live) | Failure \<Rightarrow> (- 1, buf))"

definition tcsetattr :: "outcome \<Rightarrow> termios \<Rightarrow> termios \<Rightarrow> int \<times> termios" where
  "tcsetattr oc new live = (case oc of Success \<Rightarrow> (0, new) | Failure \<Rightarrow> (- 1, live))"

text \<open>
  The answer of \<^verbatim>\<open>ioctl(STDOUT_FILENO, TIOCGWINSZ, &ws)\<close>: the return value and
  the contents of \<^verbatim>\<open>ws\<close> after the call (whatever the stack held, when the call
  failed).
\<close>

record ioctl_answer =
  ioctl_ret :: int
  ws :: winsize

text \<open>
  The answer of \<^verbatim>\<open>read(STDIN_FILENO, &c, 1)\<close>: the return value \<^verbatim>\<open>nread\<close> (1 for
  one byte, 0 for none, -1 for an error) and the contents of \<^verbatim>\<open>c\<close> after the
  call.
\<close>

record read_answer =
  nread :: int
  c :: "8 word"

subsection \<open>The four exported functions\<close>

text \<open>
  Lines 25 to 41: the local \<^verbatim>\<open>raw\<close>, derived from the saved attributes. The
  array \<^verbatim>\<open>c_cc\<close> has \<^verbatim>\<open>NCCS\<close> entries and both indices are below \<^verbatim>\<open>NCCS\<close> in every
  header; a list too short for an index is left as it is by the update, so a
  statement about the entry at \<open>VMIN\<close> or \<open>VTIME\<close> assumes that the list holds it.
\<close>

definition raw :: "termios_h \<Rightarrow> termios \<Rightarrow> termios" where
  "raw h orig =
     (let r1 = orig\<lparr>c_iflag := c_iflag orig AND
                  NOT (BRKINT h OR ICRNL h OR INPCK h OR ISTRIP h OR IXON h)\<rparr>;
          r2 = r1\<lparr>c_cflag := c_cflag r1 OR CS8 h\<rparr>;
          r3 = r2\<lparr>c_lflag := c_lflag r2 AND
                  NOT (ECHO h OR ICANON h OR IEXTEN h OR ISIG h)\<rparr>;
          r4 = r3\<lparr>c_cc := (c_cc r3)[VMIN h := 0]\<rparr>
      in r4\<lparr>c_cc := (c_cc r4)[VTIME h := 0]\<rparr>)"

definition parlance_repl_enable_raw_mode ::
  "termios_h \<Rightarrow> outcome \<Rightarrow> outcome \<Rightarrow> world \<Rightarrow> unit lean_io_result \<times> world" where
  "parlance_repl_enable_raw_mode h get_oc set_oc w =
     (if raw_mode_enabled w \<noteq> 0 then (lean_io_result_mk_ok (), w)
      else
        let (r, buf) = tcgetattr get_oc (tty w) (original_termios w);
            w1 = w\<lparr>original_termios := buf\<rparr>
        in if r = - 1 then
             (lean_io_result_mk_error
                (lean_mk_io_user_error ''Failed to get terminal attributes''), w1)
           else
             let (r', live) = tcsetattr set_oc (raw h (original_termios w1)) (tty w1);
                 w2 = w1\<lparr>tty := live\<rparr>
             in if r' = - 1 then
                  (lean_io_result_mk_error
                     (lean_mk_io_user_error ''Failed to set terminal to raw mode''), w2)
                else (lean_io_result_mk_ok (), w2\<lparr>raw_mode_enabled := 1\<rparr>))"

definition parlance_repl_disable_raw_mode ::
  "outcome \<Rightarrow> world \<Rightarrow> unit lean_io_result \<times> world" where
  "parlance_repl_disable_raw_mode set_oc w =
     (if \<not> raw_mode_enabled w \<noteq> 0 then (lean_io_result_mk_ok (), w)
      else
        let (r, live) = tcsetattr set_oc (original_termios w) (tty w);
            w1 = w\<lparr>tty := live\<rparr>
        in if r = - 1 then
             (lean_io_result_mk_error
                (lean_mk_io_user_error ''Failed to restore terminal settings''), w1)
           else (lean_io_result_mk_ok (), w1\<lparr>raw_mode_enabled := 0\<rparr>))"

text \<open>
  The pair holds \<^verbatim>\<open>lean_box(ws.ws_col)\<close> and \<^verbatim>\<open>lean_box(ws.ws_row)\<close>: the two
  unsigned 16-bit members as numbers.
\<close>

definition parlance_repl_get_size ::
  "ioctl_answer \<Rightarrow> world \<Rightarrow> (nat \<times> nat) lean_io_result \<times> world" where
  "parlance_repl_get_size a w =
     (let ws0 = ws a;
          ws1 = (if ioctl_ret a = - 1 \<or> ws_col ws0 = 0
                 then ws0\<lparr>ws_col := 80, ws_row := 24\<rparr> else ws0)
      in (lean_io_result_mk_ok (unat (ws_col ws1), unat (ws_row ws1)), w))"

definition parlance_repl_read_byte ::
  "read_answer \<Rightarrow> world \<Rightarrow> 8 word option lean_io_result \<times> world" where
  "parlance_repl_read_byte a w =
     (if nread a = 1 then (lean_io_result_mk_ok (Some (c a)), w)
      else (lean_io_result_mk_ok None, w))"

subsection \<open>Sequences of calls\<close>

text \<open>
  A call of one of the four functions, with the answers of the system calls
  it makes; \<open>step\<close> is its effect on the state, \<open>run\<close> the effect of a sequence
  of calls, first call first.
\<close>

datatype call =
    Enable_raw_mode outcome outcome
  | Disable_raw_mode outcome
  | Get_size ioctl_answer
  | Read_byte read_answer

fun step :: "termios_h \<Rightarrow> call \<Rightarrow> world \<Rightarrow> world" where
  "step h (Enable_raw_mode get_oc set_oc) w = snd (parlance_repl_enable_raw_mode h get_oc set_oc w)"
| "step h (Disable_raw_mode set_oc) w = snd (parlance_repl_disable_raw_mode set_oc w)"
| "step h (Get_size a) w = snd (parlance_repl_get_size a w)"
| "step h (Read_byte a) w = snd (parlance_repl_read_byte a w)"

fun run :: "termios_h \<Rightarrow> call list \<Rightarrow> world \<Rightarrow> world" where
  "run h [] w = w"
| "run h (cl # cls) w = run h cls (step h cl w)"

text \<open>
  A successful entry is a call of \<open>parlance_repl_enable_raw_mode\<close> on an
  inactive session that returns ok; a successful restore is a call of
  \<open>parlance_repl_disable_raw_mode\<close> on an active session that returns ok.
\<close>

fun entered :: "termios_h \<Rightarrow> call \<Rightarrow> world \<Rightarrow> bool" where
  "entered h (Enable_raw_mode get_oc set_oc) w =
     (raw_mode_enabled w = 0 \<and>
      fst (parlance_repl_enable_raw_mode h get_oc set_oc w) = lean_io_result_mk_ok ())"
| "entered h cl w = False"

fun restored :: "call \<Rightarrow> world \<Rightarrow> bool" where
  "restored (Disable_raw_mode set_oc) w =
     (raw_mode_enabled w \<noteq> 0 \<and>
      fst (parlance_repl_disable_raw_mode set_oc w) = lean_io_result_mk_ok ())"
| "restored cl w = False"

text \<open>
  \<open>run_traced\<close> runs a sequence of calls and records, beside the state, the
  attributes the terminal had when the last successful entry was made, as long
  as no successful restore has followed it. The record is kept by the
  observer, not by the program.
\<close>

fun run_traced ::
  "termios_h \<Rightarrow> call list \<Rightarrow> world \<times> termios option \<Rightarrow> world \<times> termios option" where
  "run_traced h [] wg = wg"
| "run_traced h (cl # cls) (w, g) =
     run_traced h cls
       (step h cl w,
        if entered h cl w then Some (tty w) else if restored cl w then None else g)"

subsection \<open>Concrete terminals\<close>

text \<open>
  A terminal in the usual line mode of Linux (\<^verbatim>\<open>stty sane\<close>), and one that is
  in raw form already: every flag that \<open>raw\<close> clears is clear, \<^verbatim>\<open>CS8\<close> is set,
  and both timing controls are zero.
\<close>

definition cooked_tty :: termios where
  "cooked_tty =
     \<lparr>c_iflag = 0x4500, c_oflag = 0x5, c_cflag = 0xBF, c_lflag = 0x8A3B, c_line = 0,
      c_cc = [3, 28, 127, 21, 4, 0, 1, 0, 17, 19, 26, 0, 18, 15, 23, 22,
              0, 0, 0, 0, 0, 0, 0, 0, 0, 0, 0, 0, 0, 0, 0, 0],
      c_ispeed = 0xF, c_ospeed = 0xF\<rparr>"

definition already_raw_tty :: termios where
  "already_raw_tty =
     \<lparr>c_iflag = 0x4000, c_oflag = 0x5, c_cflag = 0xBF, c_lflag = 0xA30, c_line = 0,
      c_cc = [3, 28, 127, 21, 4, 0, 0, 0, 17, 19, 26, 0, 18, 15, 23, 22,
              0, 0, 0, 0, 0, 0, 0, 0, 0, 0, 0, 0, 0, 0, 0, 0],
      c_ispeed = 0xF, c_ospeed = 0xF\<rparr>"

text \<open>A session that entered raw mode from \<open>cooked_tty\<close>.\<close>

definition active_world :: world where
  "active_world =
     run linux_termios_h [Enable_raw_mode Success Success]
       (initial_world linux_termios_h cooked_tty)"

text \<open>
  A session that entered raw mode on a terminal that was in raw form already,
  and then restored it.
\<close>

definition restored_world :: world where
  "restored_world =
     run linux_termios_h [Enable_raw_mode Success Success, Disable_raw_mode Success]
       (initial_world linux_termios_h already_raw_tty)"

subsection \<open>The invariant of the session\<close>

text \<open>
  For a terminal that starts with the attributes \<open>t0\<close>: an inactive session
  has the terminal at \<open>t0\<close> and the saved attributes either still zero or
  \<open>t0\<close>; an active one has saved \<open>t0\<close> and put the terminal at \<open>raw h t0\<close>.
\<close>

definition session_inv :: "termios_h \<Rightarrow> termios \<Rightarrow> world \<times> termios option \<Rightarrow> bool" where
  "session_inv h t0 wg =
     (case wg of (w, g) \<Rightarrow>
        if raw_mode_enabled w = 0
        then tty w = t0 \<and> g = None \<and>
             (original_termios w = zero_termios h \<or> original_termios w = t0)
        else raw_mode_enabled w = 1 \<and> original_termios w = t0 \<and>
             tty w = raw h t0 \<and> g = Some t0)"

section \<open>Properties\<close>

subsection \<open>Unfolding and helper facts\<close>

lemmas op_defs = parlance_repl_enable_raw_mode_def parlance_repl_disable_raw_mode_def
  tcgetattr_def tcsetattr_def

lemmas run_defs = op_defs raw_def initial_world_def zero_termios_def linux_termios_h_def
  cooked_tty_def active_world_def

lemma enable_ok_inactive:
  assumes "raw_mode_enabled w = 0"
      and "fst (parlance_repl_enable_raw_mode h g s w) = lean_io_result_mk_ok ()"
  shows "snd (parlance_repl_enable_raw_mode h g s w) =
           \<lparr>original_termios = tty w, raw_mode_enabled = 1, tty = raw h (tty w)\<rparr>"
  using assms by (cases g; cases s) (simp_all add: op_defs)

lemma disable_ok_active:
  assumes "raw_mode_enabled w \<noteq> 0"
      and "fst (parlance_repl_disable_raw_mode s w) = lean_io_result_mk_ok ()"
  shows "snd (parlance_repl_disable_raw_mode s w) =
           w\<lparr>tty := original_termios w, raw_mode_enabled := 0\<rparr>"
  using assms by (cases s) (simp_all add: op_defs)

lemma session_inv_initial: "session_inv h t0 (initial_world h t0, None)"
  by (simp add: session_inv_def initial_world_def)

lemma session_inv_step:
  assumes "session_inv h t0 (w, g)"
  shows "session_inv h t0
           (step h cl w,
            if entered h cl w then Some (tty w) else if restored cl w then None else g)"
proof (cases cl)
  case (Enable_raw_mode get_oc set_oc)
  with assms show ?thesis
    by (cases get_oc; cases set_oc) (auto simp add: session_inv_def op_defs split: if_splits)
next
  case (Disable_raw_mode set_oc)
  with assms show ?thesis
    by (cases set_oc) (auto simp add: session_inv_def op_defs split: if_splits)
next
  case (Get_size a)
  with assms show ?thesis
    by (simp add: session_inv_def parlance_repl_get_size_def Let_def)
next
  case (Read_byte a)
  with assms show ?thesis
    by (simp add: session_inv_def parlance_repl_read_byte_def)
qed

lemma session_inv_run:
  "session_inv h t0 wg \<Longrightarrow> session_inv h t0 (run_traced h cls wg)"
proof (induction cls arbitrary: wg)
  case Nil
  then show ?case by simp
next
  case (Cons cl cls)
  obtain w g where wg: "wg = (w, g)" by (cases wg)
  with Cons.prems have "session_inv h t0 (w, g)" by simp
  then have "session_inv h t0
           (step h cl w,
            if entered h cl w then Some (tty w) else if restored cl w then None else g)"
    by (rule session_inv_step)
  then show ?case unfolding wg by (simp add: Cons.IH)
qed

subsection \<open>Round trip\<close>

text \<open>
  C1. From an inactive session and for every attribute state of the terminal,
  a call of \<open>parlance_repl_enable_raw_mode\<close> that succeeds, followed by a call of
  \<open>parlance_repl_disable_raw_mode\<close> that succeeds, leaves the terminal's
  attributes equal, member by member, to those before the first call.
\<close>

theorem enable_then_disable_restores:
  assumes "raw_mode_enabled w = 0"
      and "parlance_repl_enable_raw_mode h g s w = (lean_io_result_mk_ok (), w1)"
      and "parlance_repl_disable_raw_mode s' w1 = (lean_io_result_mk_ok (), w2)"
  shows "tty w2 = tty w"
proof -
  from assms(1,2)
  have w1: "w1 = \<lparr>original_termios = tty w, raw_mode_enabled = 1, tty = raw h (tty w)\<rparr>"
    using enable_ok_inactive [of w h g s] by simp
  then have "raw_mode_enabled w1 \<noteq> 0" by simp
  with assms(3) have "w2 = w1\<lparr>tty := original_termios w1, raw_mode_enabled := 0\<rparr>"
    using disable_ok_active [of w1 s'] by simp
  with w1 show ?thesis by simp
qed

theorem enable_then_disable_restores_witness:
  "raw_mode_enabled (initial_world linux_termios_h cooked_tty) = 0 \<and>
   tty (snd (parlance_repl_disable_raw_mode Success
          (snd (parlance_repl_enable_raw_mode linux_termios_h Success Success
             (initial_world linux_termios_h cooked_tty))))) = cooked_tty"
  using enable_then_disable_restores
    [of "initial_world linux_termios_h cooked_tty" linux_termios_h Success Success
        "snd (parlance_repl_enable_raw_mode linux_termios_h Success Success
           (initial_world linux_termios_h cooked_tty))"
        Success
        "snd (parlance_repl_disable_raw_mode Success
           (snd (parlance_repl_enable_raw_mode linux_termios_h Success Success
              (initial_world linux_termios_h cooked_tty))))"]
  by (simp add: op_defs initial_world_def)

text \<open>
  The condition on the session is needed. On a session that is active already
  the first call returns ok at line 17 without touching anything, the second
  installs the saved attributes, and these are not the attributes the terminal
  had before the first call.
\<close>

theorem enable_twice_changes_round_trip:
  "raw_mode_enabled active_world \<noteq> 0 \<and>
   fst (parlance_repl_enable_raw_mode linux_termios_h Success Success active_world) =
     lean_io_result_mk_ok () \<and>
   fst (parlance_repl_disable_raw_mode Success
          (snd (parlance_repl_enable_raw_mode linux_termios_h Success Success active_world))) =
     lean_io_result_mk_ok () \<and>
   tty (snd (parlance_repl_disable_raw_mode Success
          (snd (parlance_repl_enable_raw_mode linux_termios_h Success Success active_world)))) \<noteq>
     tty active_world"
  by (simp add: run_defs)

subsection \<open>Idempotence\<close>

text \<open>
  C2. On an active session \<open>parlance_repl_enable_raw_mode\<close> returns ok and the
  state as it was, whatever the system calls would have answered (it makes
  none): neither the terminal nor the saved attributes change. So a second
  call answers and leaves what the first did, both when the system answers the
  same to both and when the first call succeeded and the system answers
  anything to the second. The same holds for \<open>parlance_repl_disable_raw_mode\<close>
  on an inactive session.
\<close>

theorem enable_disable_idempotent:
  "(raw_mode_enabled w \<noteq> 0 \<longrightarrow>
      parlance_repl_enable_raw_mode h g s w = (lean_io_result_mk_ok (), w)) \<and>
   parlance_repl_enable_raw_mode h g s (snd (parlance_repl_enable_raw_mode h g s w)) =
     parlance_repl_enable_raw_mode h g s w \<and>
   (fst (parlance_repl_enable_raw_mode h g s w) = lean_io_result_mk_ok () \<longrightarrow>
      parlance_repl_enable_raw_mode h g' s' (snd (parlance_repl_enable_raw_mode h g s w)) =
        (lean_io_result_mk_ok (), snd (parlance_repl_enable_raw_mode h g s w))) \<and>
   (raw_mode_enabled v = 0 \<longrightarrow>
      parlance_repl_disable_raw_mode d v = (lean_io_result_mk_ok (), v)) \<and>
   parlance_repl_disable_raw_mode d (snd (parlance_repl_disable_raw_mode d v)) =
     parlance_repl_disable_raw_mode d v \<and>
   (fst (parlance_repl_disable_raw_mode d v) = lean_io_result_mk_ok () \<longrightarrow>
      parlance_repl_disable_raw_mode d' (snd (parlance_repl_disable_raw_mode d v)) =
        (lean_io_result_mk_ok (), snd (parlance_repl_disable_raw_mode d v)))"
  by (cases g; cases s; cases d) (simp_all add: op_defs)

theorem enable_disable_idempotent_witness:
  "raw_mode_enabled active_world \<noteq> 0 \<and>
   parlance_repl_enable_raw_mode linux_termios_h Failure Failure active_world =
     (lean_io_result_mk_ok (), active_world) \<and>
   fst (parlance_repl_enable_raw_mode linux_termios_h Success Success
          (initial_world linux_termios_h cooked_tty)) = lean_io_result_mk_ok () \<and>
   parlance_repl_enable_raw_mode linux_termios_h Failure Failure
     (snd (parlance_repl_enable_raw_mode linux_termios_h Success Success
        (initial_world linux_termios_h cooked_tty))) =
     (lean_io_result_mk_ok (),
      snd (parlance_repl_enable_raw_mode linux_termios_h Success Success
        (initial_world linux_termios_h cooked_tty))) \<and>
   raw_mode_enabled (initial_world linux_termios_h cooked_tty) = 0 \<and>
   parlance_repl_disable_raw_mode Failure (initial_world linux_termios_h cooked_tty) =
     (lean_io_result_mk_ok (), initial_world linux_termios_h cooked_tty) \<and>
   fst (parlance_repl_disable_raw_mode Success active_world) = lean_io_result_mk_ok () \<and>
   parlance_repl_disable_raw_mode Failure
     (snd (parlance_repl_disable_raw_mode Success active_world)) =
     (lean_io_result_mk_ok (), snd (parlance_repl_disable_raw_mode Success active_world))"
  using
    enable_disable_idempotent
      [of active_world linux_termios_h Failure Failure Failure Failure
          "initial_world linux_termios_h cooked_tty" Failure Failure]
    enable_disable_idempotent
      [of "initial_world linux_termios_h cooked_tty" linux_termios_h Success Success
          Failure Failure active_world Success Failure]
  by (simp add: run_defs)

subsection \<open>The invariant of the flag\<close>

text \<open>
  C3. In every state reached from the initial, inactive state by any sequence
  of calls of the four functions, with any answers of the system: if
  \<open>raw_mode_enabled\<close> is set then the terminal's live attributes are \<open>raw\<close> of
  the saved attributes, and the saved attributes are those the terminal had at
  the last successful entry, which no successful restore has followed. When
  moreover \<open>raw\<close> changes the attributes the terminal started with, and these
  are not \<open>raw\<close> of the zero-initialised \<open>original_termios\<close>, the flag is set
  exactly when the live attributes are \<open>raw\<close> of the saved ones.
\<close>

theorem raw_mode_invariant:
  assumes "run_traced h cls (initial_world h t0, None) = (w, g)"
  shows "(raw_mode_enabled w \<noteq> 0 \<longrightarrow>
            tty w = raw h (original_termios w) \<and> g = Some (original_termios w)) \<and>
         (raw h t0 \<noteq> t0 \<and> raw h (zero_termios h) \<noteq> t0 \<longrightarrow>
            (raw_mode_enabled w \<noteq> 0) = (tty w = raw h (original_termios w)))"
proof -
  have "session_inv h t0 (run_traced h cls (initial_world h t0, None))"
    by (rule session_inv_run) (rule session_inv_initial)
  with assms have "session_inv h t0 (w, g)" by simp
  then have inv: "if raw_mode_enabled w = 0
        then tty w = t0 \<and> g = None \<and>
             (original_termios w = zero_termios h \<or> original_termios w = t0)
        else raw_mode_enabled w = 1 \<and> original_termios w = t0 \<and>
             tty w = raw h t0 \<and> g = Some t0"
    by (simp add: session_inv_def)
  show ?thesis
  proof (cases "raw_mode_enabled w = 0")
    case True
    with inv have live: "tty w = t0"
      and snap: "original_termios w = zero_termios h \<or> original_termios w = t0"
      by simp_all
    have "tty w \<noteq> raw h (original_termios w)"
      if "raw h t0 \<noteq> t0" and "raw h (zero_termios h) \<noteq> t0"
      using snap that unfolding live by metis
    with True show ?thesis by blast
  next
    case False
    with inv have "original_termios w = t0" "tty w = raw h t0" "g = Some t0"
      by simp_all
    with False show ?thesis by simp
  qed
qed

theorem raw_mode_invariant_witness:
  "raw linux_termios_h cooked_tty \<noteq> cooked_tty \<and>
   raw linux_termios_h (zero_termios linux_termios_h) \<noteq> cooked_tty \<and>
   run_traced linux_termios_h
     [Enable_raw_mode Success Failure, Enable_raw_mode Success Success,
      Read_byte \<lparr>nread = 1, c = 0x41\<rparr>, Enable_raw_mode Failure Failure,
      Disable_raw_mode Failure]
     (initial_world linux_termios_h cooked_tty, None) = (active_world, Some cooked_tty) \<and>
   raw_mode_enabled active_world \<noteq> 0 \<and>
   tty active_world = raw linux_termios_h (original_termios active_world) \<and>
   original_termios active_world = cooked_tty"
  using raw_mode_invariant
    [of linux_termios_h
        "[Enable_raw_mode Success Failure, Enable_raw_mode Success Success,
          Read_byte \<lparr>nread = 1, c = 0x41\<rparr>, Enable_raw_mode Failure Failure,
          Disable_raw_mode Failure]"
        cooked_tty active_world "Some cooked_tty"]
  by (simp add: run_defs parlance_repl_read_byte_def)

text \<open>
  Without the condition on the starting attributes the flag can be clear
  while the live attributes are \<open>raw\<close> of the saved ones: a terminal that is in
  raw form when the session enters is saved, left as it is, and restored to
  the same attributes.
\<close>

theorem raw_mode_invariant_counterexample:
  "raw_mode_enabled restored_world = 0 \<and>
   tty restored_world = raw linux_termios_h (original_termios restored_world)"
  by (simp add: run_defs already_raw_tty_def restored_world_def)

subsection \<open>The attributes of raw mode\<close>

text \<open>
  C4. On a successful entry (a call of \<open>parlance_repl_enable_raw_mode\<close> on an
  inactive session that returns ok, on a terminal whose \<open>c_cc\<close> holds the
  entries \<open>VMIN\<close> and \<open>VTIME\<close>), the saved attributes are those the terminal
  had, and the attributes installed are the saved ones with \<open>BRKINT\<close>, \<open>ICRNL\<close>,
  \<open>INPCK\<close>, \<open>ISTRIP\<close> and \<open>IXON\<close> cleared in \<open>c_iflag\<close>, with \<open>ECHO\<close>, \<open>ICANON\<close>,
  \<open>IEXTEN\<close> and \<open>ISIG\<close> cleared in \<open>c_lflag\<close>, with \<open>CS8\<close> set in \<open>c_cflag\<close>, with
  \<open>c_oflag\<close> (and so \<open>OPOST\<close>) as saved, with \<open>c_cc[VMIN]\<close> and \<open>c_cc[VTIME]\<close>
  zero, and with every other bit, control character and member as saved.
\<close>

theorem raw_mode_attributes:
  assumes "raw_mode_enabled w = 0"
      and "parlance_repl_enable_raw_mode h g s w = (lean_io_result_mk_ok (), w')"
      and "VMIN h < length (c_cc (tty w))" and "VTIME h < length (c_cc (tty w))"
  shows "original_termios w' = tty w \<and>
         c_iflag (tty w') AND BRKINT h = 0 \<and>
         c_iflag (tty w') AND ICRNL h = 0 \<and>
         c_iflag (tty w') AND INPCK h = 0 \<and>
         c_iflag (tty w') AND ISTRIP h = 0 \<and>
         c_iflag (tty w') AND IXON h = 0 \<and>
         (\<forall>n. \<not> bit (BRKINT h OR ICRNL h OR INPCK h OR ISTRIP h OR IXON h) n \<longrightarrow>
            bit (c_iflag (tty w')) n = bit (c_iflag (original_termios w')) n) \<and>
         c_lflag (tty w') AND ECHO h = 0 \<and>
         c_lflag (tty w') AND ICANON h = 0 \<and>
         c_lflag (tty w') AND IEXTEN h = 0 \<and>
         c_lflag (tty w') AND ISIG h = 0 \<and>
         (\<forall>n. \<not> bit (ECHO h OR ICANON h OR IEXTEN h OR ISIG h) n \<longrightarrow>
            bit (c_lflag (tty w')) n = bit (c_lflag (original_termios w')) n) \<and>
         c_cflag (tty w') AND CS8 h = CS8 h \<and>
         (\<forall>n. \<not> bit (CS8 h) n \<longrightarrow>
            bit (c_cflag (tty w')) n = bit (c_cflag (original_termios w')) n) \<and>
         c_oflag (tty w') = c_oflag (original_termios w') \<and>
         c_oflag (tty w') AND OPOST h = c_oflag (original_termios w') AND OPOST h \<and>
         c_cc (tty w') ! VMIN h = 0 \<and>
         c_cc (tty w') ! VTIME h = 0 \<and>
         length (c_cc (tty w')) = length (c_cc (original_termios w')) \<and>
         (\<forall>i. i \<noteq> VMIN h \<and> i \<noteq> VTIME h \<longrightarrow>
            c_cc (tty w') ! i = c_cc (original_termios w') ! i) \<and>
         c_line (tty w') = c_line (original_termios w') \<and>
         c_ispeed (tty w') = c_ispeed (original_termios w') \<and>
         c_ospeed (tty w') = c_ospeed (original_termios w')"
proof -
  from assms(1,2)
  have w': "w' = \<lparr>original_termios = tty w, raw_mode_enabled = 1, tty = raw h (tty w)\<rparr>"
    using enable_ok_inactive [of w h g s] by simp
  have i: "c_iflag (raw h t) =
        c_iflag t AND NOT (BRKINT h OR ICRNL h OR INPCK h OR ISTRIP h OR IXON h)"
    and l: "c_lflag (raw h t) = c_lflag t AND NOT (ECHO h OR ICANON h OR IEXTEN h OR ISIG h)"
    and cf: "c_cflag (raw h t) = c_cflag t OR CS8 h"
    and cc: "c_cc (raw h t) = (c_cc t)[VMIN h := 0, VTIME h := 0]"
    and rest: "c_oflag (raw h t) = c_oflag t" "c_line (raw h t) = c_line t"
       "c_ispeed (raw h t) = c_ispeed t" "c_ospeed (raw h t) = c_ospeed t" for t
    by (simp_all add: raw_def Let_def)
  have snap: "original_termios w' = tty w" and live: "tty w' = raw h (tty w)"
    by (simp_all add: w')
  have iclear: "c_iflag (tty w') AND BRKINT h = 0" "c_iflag (tty w') AND ICRNL h = 0"
      "c_iflag (tty w') AND INPCK h = 0" "c_iflag (tty w') AND ISTRIP h = 0"
      "c_iflag (tty w') AND IXON h = 0"
    unfolding live by (auto simp add: i bit_eq_iff bit_simps)
  have ikeep: "\<forall>n. \<not> bit (BRKINT h OR ICRNL h OR INPCK h OR ISTRIP h OR IXON h) n \<longrightarrow>
      bit (c_iflag (tty w')) n = bit (c_iflag (original_termios w')) n"
    unfolding snap live by (auto simp add: i bit_simps dest: bit_imp_le_length)
  have lclear: "c_lflag (tty w') AND ECHO h = 0" "c_lflag (tty w') AND ICANON h = 0"
      "c_lflag (tty w') AND IEXTEN h = 0" "c_lflag (tty w') AND ISIG h = 0"
    unfolding live by (auto simp add: l bit_eq_iff bit_simps)
  have lkeep: "\<forall>n. \<not> bit (ECHO h OR ICANON h OR IEXTEN h OR ISIG h) n \<longrightarrow>
      bit (c_lflag (tty w')) n = bit (c_lflag (original_termios w')) n"
    unfolding snap live by (auto simp add: l bit_simps dest: bit_imp_le_length)
  have cset: "c_cflag (tty w') AND CS8 h = CS8 h"
    unfolding live by (auto simp add: cf bit_eq_iff bit_simps)
  have ckeep: "\<forall>n. \<not> bit (CS8 h) n \<longrightarrow>
      bit (c_cflag (tty w')) n = bit (c_cflag (original_termios w')) n"
    unfolding snap live by (auto simp add: cf bit_simps)
  have oflag: "c_oflag (tty w') = c_oflag (original_termios w')"
    unfolding snap live by (simp add: rest)
  then have opost: "c_oflag (tty w') AND OPOST h = c_oflag (original_termios w') AND OPOST h"
    by simp
  have timing: "c_cc (tty w') ! VMIN h = 0" "c_cc (tty w') ! VTIME h = 0"
    unfolding live using assms(3,4) by (simp_all add: cc nth_list_update)
  have others: "length (c_cc (tty w')) = length (c_cc (original_termios w'))"
      "\<forall>i. i \<noteq> VMIN h \<and> i \<noteq> VTIME h \<longrightarrow>
         c_cc (tty w') ! i = c_cc (original_termios w') ! i"
    unfolding snap live by (simp_all add: cc)
  have more: "c_line (tty w') = c_line (original_termios w')"
      "c_ispeed (tty w') = c_ispeed (original_termios w')"
      "c_ospeed (tty w') = c_ospeed (original_termios w')"
    unfolding snap live by (simp_all add: rest)
  show ?thesis
    by (intro conjI)
      (fact snap iclear ikeep lclear lkeep cset ckeep oflag opost timing others more)+
qed

theorem raw_mode_attributes_witness:
  "raw_mode_enabled (initial_world linux_termios_h cooked_tty) = 0 \<and>
   parlance_repl_enable_raw_mode linux_termios_h Success Success
     (initial_world linux_termios_h cooked_tty) = (lean_io_result_mk_ok (), active_world) \<and>
   VMIN linux_termios_h < length (c_cc cooked_tty) \<and>
   VTIME linux_termios_h < length (c_cc cooked_tty) \<and>
   original_termios active_world = cooked_tty \<and>
   c_iflag (tty active_world) AND ICRNL linux_termios_h = 0 \<and>
   c_iflag (tty active_world) AND IXON linux_termios_h = 0 \<and>
   c_lflag (tty active_world) AND ECHO linux_termios_h = 0 \<and>
   c_lflag (tty active_world) AND ICANON linux_termios_h = 0 \<and>
   c_lflag (tty active_world) AND IEXTEN linux_termios_h = 0 \<and>
   c_lflag (tty active_world) AND ISIG linux_termios_h = 0 \<and>
   c_cflag (tty active_world) AND CS8 linux_termios_h = CS8 linux_termios_h \<and>
   c_oflag (tty active_world) = c_oflag cooked_tty \<and>
   c_cc (tty active_world) ! VMIN linux_termios_h = 0 \<and>
   c_cc (tty active_world) ! VTIME linux_termios_h = 0"
  using raw_mode_attributes
    [of "initial_world linux_termios_h cooked_tty" linux_termios_h Success Success active_world]
  by (simp add: run_defs)

subsection \<open>The size of the terminal\<close>

text \<open>
  C5. \<open>parlance_repl_get_size\<close> never returns an error: for every answer of the
  size query it returns ok with a pair (columns, rows), leaving the state as it
  was. The pair is (80, 24) when the query fails or reports zero columns, and
  the reported pair otherwise. The columns are positive in every case; the
  rows are zero exactly when the query succeeds with columns that are not zero
  and zero rows.
\<close>

theorem get_size_total:
  "\<exists>cols rows.
     parlance_repl_get_size a w = (lean_io_result_mk_ok (cols, rows), w) \<and>
     0 < cols \<and>
     (ioctl_ret a = - 1 \<or> ws_col (ws a) = 0 \<longrightarrow> cols = 80 \<and> rows = 24) \<and>
     (ioctl_ret a \<noteq> - 1 \<and> ws_col (ws a) \<noteq> 0 \<longrightarrow>
        cols = unat (ws_col (ws a)) \<and> rows = unat (ws_row (ws a))) \<and>
     (rows = 0) = (ioctl_ret a \<noteq> - 1 \<and> ws_col (ws a) \<noteq> 0 \<and> ws_row (ws a) = 0)"
  by (auto simp add: parlance_repl_get_size_def Let_def unat_gt_0 unat_eq_0)

theorem get_size_total_witness:
  "parlance_repl_get_size
     \<lparr>ioctl_ret = 0, ws = \<lparr>ws_row = 40, ws_col = 120, ws_xpixel = 0, ws_ypixel = 0\<rparr>\<rparr>
     active_world = (lean_io_result_mk_ok (120, 40), active_world) \<and>
   parlance_repl_get_size
     \<lparr>ioctl_ret = - 1, ws = \<lparr>ws_row = 7, ws_col = 9, ws_xpixel = 0, ws_ypixel = 0\<rparr>\<rparr>
     active_world = (lean_io_result_mk_ok (80, 24), active_world) \<and>
   parlance_repl_get_size
     \<lparr>ioctl_ret = 0, ws = \<lparr>ws_row = 0, ws_col = 0, ws_xpixel = 0, ws_ypixel = 0\<rparr>\<rparr>
     active_world = (lean_io_result_mk_ok (80, 24), active_world)"
  using
    get_size_total
      [of "\<lparr>ioctl_ret = 0, ws = \<lparr>ws_row = 40, ws_col = 120, ws_xpixel = 0, ws_ypixel = 0\<rparr>\<rparr>"
          active_world]
    get_size_total
      [of "\<lparr>ioctl_ret = - 1, ws = \<lparr>ws_row = 7, ws_col = 9, ws_xpixel = 0, ws_ypixel = 0\<rparr>\<rparr>"
          active_world]
    get_size_total
      [of "\<lparr>ioctl_ret = 0, ws = \<lparr>ws_row = 0, ws_col = 0, ws_xpixel = 0, ws_ypixel = 0\<rparr>\<rparr>"
          active_world]
  by (simp add: parlance_repl_get_size_def)

text \<open>
  The rows are not always positive: line 71 tests the columns only, so a
  terminal that reports 80 columns and no rows gets the pair (80, 0).
\<close>

theorem get_size_zero_rows:
  "parlance_repl_get_size
     \<lparr>ioctl_ret = 0, ws = \<lparr>ws_row = 0, ws_col = 80, ws_xpixel = 0, ws_ypixel = 0\<rparr>\<rparr>
     (initial_world linux_termios_h cooked_tty) =
   (lean_io_result_mk_ok (80, 0), initial_world linux_termios_h cooked_tty)"
  by (simp add: parlance_repl_get_size_def)

subsection \<open>Reading a byte\<close>

text \<open>
  C6. \<open>parlance_repl_read_byte\<close> never returns an error. For every answer of
  \<^verbatim>\<open>read\<close> it returns ok: with \<open>Some b\<close> exactly when \<^verbatim>\<open>read\<close> returned 1 and stored
  the byte \<open>b\<close>, and with \<open>None\<close> both when \<^verbatim>\<open>read\<close> returned 0 (nothing
  available) and when it returned -1 (an error of any kind).
\<close>

theorem read_byte_never_fails:
  "fst (parlance_repl_read_byte a w) \<noteq> lean_io_result_mk_error e \<and>
   (fst (parlance_repl_read_byte a w) = lean_io_result_mk_ok (Some b)) =
     (nread a = 1 \<and> c a = b) \<and>
   (nread a = 0 \<or> nread a = - 1 \<longrightarrow>
      fst (parlance_repl_read_byte a w) = lean_io_result_mk_ok None)"
  by (auto simp add: parlance_repl_read_byte_def)

theorem read_byte_never_fails_witness:
  "fst (parlance_repl_read_byte \<lparr>nread = 1, c = 0x41\<rparr> active_world) =
     lean_io_result_mk_ok (Some 0x41) \<and>
   fst (parlance_repl_read_byte \<lparr>nread = 0, c = 0x41\<rparr> active_world) =
     lean_io_result_mk_ok None \<and>
   fst (parlance_repl_read_byte \<lparr>nread = - 1, c = 0x41\<rparr> active_world) =
     lean_io_result_mk_ok None"
  using
    read_byte_never_fails [of "\<lparr>nread = 1, c = 0x41\<rparr>" active_world _ "0x41"]
    read_byte_never_fails [of "\<lparr>nread = 0, c = 0x41\<rparr>" active_world]
    read_byte_never_fails [of "\<lparr>nread = - 1, c = 0x41\<rparr>" active_world]
  by (simp add: parlance_repl_read_byte_def)

subsection \<open>Failures of the attribute calls\<close>

text \<open>
  C7. When \<open>parlance_repl_enable_raw_mode\<close> is called on an inactive session and
  \<^verbatim>\<open>tcgetattr\<close> fails, it returns the error "Failed to get terminal attributes"
  and the state is as before: the session is still inactive and the terminal's
  attributes are untouched (and so are the saved ones). The second system call
  is not made, so its answer does not matter.
\<close>

theorem enable_capture_failure:
  assumes "raw_mode_enabled w = 0"
  shows "parlance_repl_enable_raw_mode h Failure s w =
           (lean_io_result_mk_error
              (lean_mk_io_user_error ''Failed to get terminal attributes''), w)"
  using assms by (simp add: op_defs)

theorem enable_capture_failure_witness:
  "raw_mode_enabled (initial_world linux_termios_h cooked_tty) = 0 \<and>
   parlance_repl_enable_raw_mode linux_termios_h Failure Success
     (initial_world linux_termios_h cooked_tty) =
   (lean_io_result_mk_error (lean_mk_io_user_error ''Failed to get terminal attributes''),
    initial_world linux_termios_h cooked_tty)"
  using enable_capture_failure
    [of "initial_world linux_termios_h cooked_tty" linux_termios_h Success]
  by (simp add: initial_world_def)

text \<open>
  C8. When \<open>parlance_repl_enable_raw_mode\<close> is called on an inactive session,
  \<^verbatim>\<open>tcgetattr\<close> succeeds and \<^verbatim>\<open>tcsetattr\<close> fails, it returns the error "Failed to
  set terminal to raw mode"; the session is not marked active, the saved
  attributes are the ones just captured from the terminal, and the terminal is
  as it was. A further call whose system calls succeed then enters raw mode
  from those same attributes.
\<close>

theorem enable_apply_failure:
  assumes "raw_mode_enabled w = 0"
  shows "let w' = snd (parlance_repl_enable_raw_mode h Success Failure w) in
         fst (parlance_repl_enable_raw_mode h Success Failure w) =
           lean_io_result_mk_error
             (lean_mk_io_user_error ''Failed to set terminal to raw mode'') \<and>
         raw_mode_enabled w' = 0 \<and>
         original_termios w' = tty w \<and>
         tty w' = tty w \<and>
         parlance_repl_enable_raw_mode h Success Success w' =
           (lean_io_result_mk_ok (),
            \<lparr>original_termios = tty w, raw_mode_enabled = 1, tty = raw h (tty w)\<rparr>)"
  using assms by (simp add: op_defs)

theorem enable_apply_failure_witness:
  "raw_mode_enabled (initial_world linux_termios_h cooked_tty) = 0 \<and>
   parlance_repl_enable_raw_mode linux_termios_h Success Failure
     (initial_world linux_termios_h cooked_tty) =
   (lean_io_result_mk_error (lean_mk_io_user_error ''Failed to set terminal to raw mode''),
    \<lparr>original_termios = cooked_tty, raw_mode_enabled = 0, tty = cooked_tty\<rparr>) \<and>
   parlance_repl_enable_raw_mode linux_termios_h Success Success
     \<lparr>original_termios = cooked_tty, raw_mode_enabled = 0, tty = cooked_tty\<rparr> =
   (lean_io_result_mk_ok (), active_world)"
  using enable_apply_failure
    [of "initial_world linux_termios_h cooked_tty" linux_termios_h]
  by (simp add: run_defs)

text \<open>
  C9. When \<open>parlance_repl_disable_raw_mode\<close> is called on an active session and
  \<^verbatim>\<open>tcsetattr\<close> fails, it returns the error "Failed to restore terminal settings"
  and the state is as before: the session is still active and the saved
  attributes are unchanged. A further call whose \<^verbatim>\<open>tcsetattr\<close> succeeds then
  restores them.
\<close>

theorem disable_restore_failure:
  assumes "raw_mode_enabled w \<noteq> 0"
  shows "parlance_repl_disable_raw_mode Failure w =
           (lean_io_result_mk_error
              (lean_mk_io_user_error ''Failed to restore terminal settings''), w) \<and>
         parlance_repl_disable_raw_mode Success
             (snd (parlance_repl_disable_raw_mode Failure w)) =
           (lean_io_result_mk_ok (), w\<lparr>tty := original_termios w, raw_mode_enabled := 0\<rparr>)"
  using assms by (simp add: op_defs)

theorem disable_restore_failure_witness:
  "raw_mode_enabled active_world \<noteq> 0 \<and>
   parlance_repl_disable_raw_mode Failure active_world =
     (lean_io_result_mk_error (lean_mk_io_user_error ''Failed to restore terminal settings''),
      active_world) \<and>
   parlance_repl_disable_raw_mode Success active_world =
     (lean_io_result_mk_ok (),
      \<lparr>original_termios = cooked_tty, raw_mode_enabled = 0, tty = cooked_tty\<rparr>)"
  using disable_restore_failure [of active_world]
  by (simp add: run_defs)

subsection \<open>Frame\<close>

text \<open>
  C10. \<open>parlance_repl_read_byte\<close> and \<open>parlance_repl_get_size\<close> leave the
  session state as it was, on every call: the flag \<open>raw_mode_enabled\<close> and the
  saved \<open>original_termios\<close> are those of before, whether or not raw mode is
  active and whatever the system call answers.
\<close>

theorem read_byte_get_size_frame:
  "snd (parlance_repl_read_byte ra w) = w \<and> snd (parlance_repl_get_size ia w) = w"
  by (simp add: parlance_repl_read_byte_def parlance_repl_get_size_def Let_def)

end
